theory Spec2Isabelle
  imports Complex_Main
begin

section \<open>Go library behaviour used by the handlers\<close>

text \<open>
  Errors are values. \<open>ContextCanceled\<close> is \<open>context.Canceled\<close>; \<open>ErrSyntax\<close> and
  \<open>ErrRange\<close> are the two errors of package \<open>strconv\<close>; \<open>Failure\<close> is any other error
  with its message; \<open>Wrapped m e\<close> is \<open>fmt.Errorf(m + ": %w", e)\<close>.
\<close>

datatype err = ContextCanceled | ErrSyntax | ErrRange | Failure string | Wrapped string err

text \<open>\<open>errors.Is(e, context.Canceled)\<close>: looks through the \<open>%w\<close> chain.\<close>

fun isCanceled :: "err \<Rightarrow> bool" where
  "isCanceled ContextCanceled = True"
| "isCanceled (Wrapped m e) = isCanceled e"
| "isCanceled e = False"

text \<open>
  \<open>strconv.Atoi\<close> on a 64-bit platform: an optional sign, then one or more decimal
  digits and nothing else. As in Go the result is a value and an error: 0 with
  \<open>ErrSyntax\<close> for a string of another form, the nearest \<open>int\<close> with \<open>ErrRange\<close> for a
  value outside the \<open>int\<close> range.
\<close>

definition isDigit :: "char \<Rightarrow> bool" where
  "isDigit c = (48 \<le> (of_char c :: nat) \<and> (of_char c :: nat) \<le> 57)"

definition digitsValue :: "string \<Rightarrow> nat" where
  "digitsValue ds = foldl (\<lambda>n c. n * 10 + ((of_char c :: nat) - 48)) 0 ds"

definition Atoi :: "string \<Rightarrow> int \<times> err option" where
  "Atoi s =
     (let neg = (s \<noteq> [] \<and> hd s = CHR ''-'');
          ds = (if s \<noteq> [] \<and> (hd s = CHR ''-'' \<or> hd s = CHR ''+'') then tl s else s)
      in if ds = [] \<or> \<not> list_all isDigit ds then (0, Some ErrSyntax)
         else let v = (if neg then - int (digitsValue ds) else int (digitsValue ds))
              in if v < - (2 ^ 63) then (- (2 ^ 63), Some ErrRange)
                 else if 2 ^ 63 - 1 < v then (2 ^ 63 - 1, Some ErrRange)
                 else (v, None))"

text \<open>The pattern \<open>v, err := f(); if err != nil { return err }\<close>: the error, or the value.\<close>

definition checked :: "'a \<times> err option \<Rightarrow> err + 'a" where
  "checked x = (case x of (v, Some e) \<Rightarrow> Inl e | (v, None) \<Rightarrow> Inr v)"

text \<open>\<open>strconv.Itoa\<close>: the decimal digits of an integer, with a minus sign when negative.\<close>

definition digitChar :: "nat \<Rightarrow> char" where
  "digitChar d = ''0123456789'' ! d"

fun natDigits :: "nat \<Rightarrow> string" where
  "natDigits n = (if n < 10 then [digitChar n] else natDigits (n div 10) @ [digitChar (n mod 10)])"

declare natDigits.simps [simp del]

definition Itoa :: "int \<Rightarrow> string" where
  "Itoa i = (if i < 0 then CHR ''-'' # natDigits (nat (- i)) else natDigits (nat i))"

text \<open>\<open>strings.Join(xs, sep)\<close>.\<close>

fun Join :: "string list \<Rightarrow> string \<Rightarrow> string" where
  "Join [] sep = []"
| "Join [x] sep = x"
| "Join (x # y # ys) sep = x @ sep @ Join (y # ys) sep"

text \<open>
  A \<open>float64\<close> that is only passed along: a finite value, an infinity or not-a-number.
\<close>

datatype float64 = Finite real | PosInf | NegInf | NaN

text \<open>
  The conversion \<open>int(x)\<close> of a \<open>float64\<close>: the fraction is dropped (rounding towards
  zero). Where the value does not fit an \<open>int\<close> the language leaves the result to the
  platform; the smallest \<open>int\<close> is what amd64 gives.
\<close>

definition intOfFloat :: "float64 \<Rightarrow> int" where
  "intOfFloat x =
     (case x of
        Finite v \<Rightarrow>
          (let t = (if 0 \<le> v then \<lfloor>v\<rfloor> else \<lceil>v\<rceil>)
           in if t < - (2 ^ 63) \<or> 2 ^ 63 - 1 < t then - (2 ^ 63) else t)
      | _ \<Rightarrow> - (2 ^ 63))"

text \<open>
  The result of \<open>strconv.ParseFloat(s, 64)\<close>. The parser itself is a parameter of the
  environment; what the library promises about its two results is fixed here: a string that
  is not a floating-point literal gives the value 0 with \<open>ErrSyntax\<close>, a literal that is out
  of range gives an infinity with \<open>ErrRange\<close>.
\<close>

datatype parsed = Parsed float64 | SyntaxError | RangeError float64

fun parsedValue :: "parsed \<Rightarrow> float64" where
  "parsedValue (Parsed v) = v"
| "parsedValue SyntaxError = Finite 0"
| "parsedValue (RangeError v) = v"

fun parsedErr :: "parsed \<Rightarrow> err option" where
  "parsedErr (Parsed v) = None"
| "parsedErr SyntaxError = Some ErrSyntax"
| "parsedErr (RangeError v) = Some ErrRange"

section \<open>Data model\<close>

record VideoFile =
  file_ID :: int
  file_Path :: string

record Story =
  story_ID :: int
  story_Path :: string
  story_Checksum :: string
  story_OSHash :: string
  story_PrimaryFileID :: "int option"
  Files_Primary :: "VideoFile option"
  Files_List :: "VideoFile list"

record StoryMarker =
  marker_ID :: int
  marker_Title :: string
  marker_Seconds :: float64
  marker_PrimaryTagID :: int
  marker_StoryID :: int

record Tag =
  tag_ID :: int
  tag_Name :: string

record VideoCaption =
  LanguageCode :: string
  CaptionType :: string
  Filename :: string

text \<open>The output formats of \<open>pkg/ffmpeg\<close> the routes name.\<close>

datatype StreamFormat = StreamTypeMP4 | StreamTypeWEBM | StreamTypeMKV

datatype StreamType = StreamTypeHLS | StreamTypeDASHVideo | StreamTypeDASHAudio

record TranscodeOptions =
  to_StreamType :: StreamFormat
  to_VideoFile :: VideoFile
  to_Resolution :: string
  to_StartTime :: float64

record StreamOptions =
  so_StreamType :: StreamType
  so_VideoFile :: VideoFile
  so_Resolution :: string
  so_Hash :: string
  so_Segment :: string

section \<open>HTTP requests and what a handler does to the response\<close>

text \<open>
  A request carries the router's URL parameters, the parsed query form and the story that
  \<open>StoryCtx\<close> stored in the request context (if any).
\<close>

record Request =
  URLParams :: "string \<rightharpoonup> string"
  Form :: "string \<rightharpoonup> string list"
  ctxStory :: "Story option"

text \<open>\<open>chi.URLParam(r, key)\<close>: the empty string when the route has no such parameter.\<close>

definition URLParam :: "Request \<Rightarrow> string \<Rightarrow> string" where
  "URLParam r k = (case URLParams r k of None \<Rightarrow> [] | Some v \<Rightarrow> v)"

text \<open>\<open>r.Form.Get(key)\<close>: the first value of the key, the empty string when there is none.\<close>

definition FormGet :: "Request \<Rightarrow> string \<Rightarrow> string" where
  "FormGet r k = (case Form r k of None \<Rightarrow> [] | Some [] \<Rightarrow> [] | Some (v # vs) \<Rightarrow> v)"

text \<open>
  The text of a response written by \<open>http.Error\<close>: a literal of the source, or the
  \<open>Error()\<close> text of an error value.
\<close>

datatype msg = Lit string | ErrorText err

text \<open>
  A handler is modelled by the sequence of calls it makes on the response writer, on the
  serving helpers of \<open>pkg/utils\<close> and on the stream manager, in program order. A run-time
  panic of the handler ends the sequence with \<open>Panic\<close>. Log output is not modelled.
\<close>

datatype wact =
    SetHeader string string
  | WriteHeader nat
  | Write string
  | HttpError msg nat
  | ServeStaticFile string
  | ServeStaticContent string
  | ServeTranscode TranscodeOptions
  | ServeManifest StreamType VideoFile string
  | ServeSegment StreamOptions
  | Panic

definition StatusBadRequest :: nat where "StatusBadRequest = 400"
definition StatusNotFound :: nat where "StatusNotFound = 404"
definition StatusInternalServerError :: nat where "StatusInternalServerError = 500"
definition StatusServiceUnavailable :: nat where "StatusServiceUnavailable = 503"

text \<open>\<open>http.StatusText\<close> for the two codes the routes pass to it.\<close>

definition StatusText :: "nat \<Rightarrow> string" where
  "StatusText c = (if c = 400 then ''Bad Request'' else if c = 404 then ''Not Found'' else [])"

text \<open>The calls that reach the stream manager, the only place an encoder is started.\<close>

fun isManagerCall :: "wact \<Rightarrow> bool" where
  "isManagerCall (ServeTranscode opts) = True"
| "isManagerCall (ServeManifest t f res) = True"
| "isManagerCall (ServeSegment opts) = True"
| "isManagerCall a = False"

definition managerCalls :: "wact list \<Rightarrow> wact list" where
  "managerCalls acts = filter isManagerCall acts"

text \<open>
  The status line \<open>net/http\<close> sends for a sequence of calls, where the handler decides it:
  the first explicit \<open>WriteHeader\<close> or \<open>http.Error\<close>; 200 for a body written with no
  status, and for a handler that returns having written nothing. The serving helpers and
  the stream manager choose their own status (\<open>None\<close> here).
\<close>

fun statusOf :: "wact list \<Rightarrow> nat option" where
  "statusOf [] = Some 200"
| "statusOf (SetHeader k v # as) = statusOf as"
| "statusOf (WriteHeader c # as) = Some c"
| "statusOf (HttpError m c # as) = Some c"
| "statusOf (Write b # as) = Some 200"
| "statusOf (a # as) = None"


section \<open>The environment of the story routes\<close>

text \<open>
  What the routes take from outside their own source file: whether a stream manager exists
  (it is absent when live transcoding is disabled), the repositories behind the finder interfaces
  of \<open>storyRoutes\<close>, the path-naming service, the file system and the subtitle library.
  A Go function returning \<open>(value, error)\<close> is a function into a pair; one returning
  a value or an error is a function into a sum.
\<close>

record Env =
  StreamManager :: bool
  GetVideoFileContainer :: "VideoFile \<Rightarrow> string \<times> err option"
  ParseFloat :: "string \<Rightarrow> parsed"
  GetHash :: "Story \<Rightarrow> string"
  txnBegin :: "err option"
  txnCommit :: "err option"
  storyFinder_Find :: "int \<Rightarrow> Story option \<times> err option"
  LoadPrimaryFile :: "Story \<Rightarrow> err + Story"
  storyMarkerFinder_Find :: "int \<Rightarrow> StoryMarker option \<times> err option"
  storyMarkerFinder_FindByStoryID :: "int \<Rightarrow> StoryMarker list \<times> err option"
  tagFinder_Find :: "int \<Rightarrow> Tag option \<times> err option"
  tagFinder_FindByStoryMarkerID :: "int \<Rightarrow> Tag list \<times> err option"
  GetCaptions :: "int \<Rightarrow> VideoCaption list \<times> err option"
  CaptionPath :: "VideoCaption \<Rightarrow> string \<Rightarrow> string"
  ReadSubs :: "string \<Rightarrow> err + string"
  WriteToWebVTT :: "string \<Rightarrow> err + string"
  GetVTTTime :: "float64 \<Rightarrow> string"
  GetSpriteVttFilePath :: "string \<Rightarrow> string"
  GetSpriteImageFilePath :: "string \<Rightarrow> string"
  MarkerVideoPreviewPath :: "string \<Rightarrow> int \<Rightarrow> string"
  MarkerWebpPreviewPath :: "string \<Rightarrow> int \<Rightarrow> string"
  MarkerScreenshotPath :: "string \<Rightarrow> int \<Rightarrow> string"
  FileExists :: "string \<Rightarrow> bool"
  PendingGenerateResource :: string

text \<open>The container name \<open>ffmpeg.Matroska\<close>.\<close>

definition Matroska :: string where
  "Matroska = ''matroska''"

text \<open>
  How a function literal passed to a transaction wrapper ends: it returns, with the
  variables it assigns and its error, or it panics.
\<close>

datatype 'v ran = Returned 'v "err option" | Panicked

text \<open>
  \<open>rs.withReadTxn(r, fn)\<close>; the wrapper is defined in another file of the package. It
  begins a read transaction, runs \<open>fn\<close> and returns its error, or the error of beginning or ending the
  transaction; a panic of \<open>fn\<close> goes on to the caller. \<open>v0\<close> is the value of the
  variables \<open>fn\<close> assigns before the call, \<open>body\<close> is how \<open>fn\<close> ends when it runs.
\<close>

definition withReadTxn :: "Env \<Rightarrow> 'v \<Rightarrow> 'v ran \<Rightarrow> 'v ran" where
  "withReadTxn env v0 body =
     (case txnBegin env of
        Some e \<Rightarrow> Returned v0 (Some e)
      | None \<Rightarrow>
          (case body of
             Panicked \<Rightarrow> Panicked
           | Returned v (Some e) \<Rightarrow> Returned v (Some e)
           | Returned v None \<Rightarrow> Returned v (txnCommit env)))"

section \<open>The story context middleware\<close>



section \<open>Streaming routes\<close>

definition streamTranscode :: "Env \<Rightarrow> StreamFormat \<Rightarrow> Request \<Rightarrow> wact list" where
  "streamTranscode env streamType r =
     (case ctxStory r of
        None \<Rightarrow> [Panic]
      | Some story \<Rightarrow>
          if \<not> StreamManager env
          then [HttpError (Lit ''Live transcoding disabled'') StatusServiceUnavailable]
          else (case Files_Primary story of
                  None \<Rightarrow> []
                | Some f \<Rightarrow>
                    (let startTime = FormGet r ''start'';
                         ss = parsedValue (ParseFloat env startTime);
                         resolution = FormGet r ''resolution'';
                         options = \<lparr>to_StreamType = streamType, to_VideoFile = f,
                                    to_Resolution = resolution, to_StartTime = ss\<rparr>
                     in [ServeTranscode options])))"


definition StreamWebM :: "Env \<Rightarrow> Request \<Rightarrow> wact list" where
  "StreamWebM env r = streamTranscode env StreamTypeWEBM r"

definition StreamMKV :: "Env \<Rightarrow> Request \<Rightarrow> wact list" where
  "StreamMKV env r =
     (case ctxStory r of
        None \<Rightarrow> [Panic]
      | Some story \<Rightarrow>
          (case Files_Primary story of
             None \<Rightarrow> []
           | Some pf \<Rightarrow>
               (let container = fst (GetVideoFileContainer env pf)
                in if container \<noteq> Matroska
                   then [WriteHeader StatusBadRequest, Write ''not an mkv file'']
                   else streamTranscode env StreamTypeMKV r)))"

definition streamManifest :: "Env \<Rightarrow> StreamType \<Rightarrow> Request \<Rightarrow> wact list" where
  "streamManifest env streamType r =
     (case ctxStory r of
        None \<Rightarrow> [Panic]
      | Some story \<Rightarrow>
          if \<not> StreamManager env
          then [HttpError (Lit ''Live transcoding disabled'') StatusServiceUnavailable]
          else (case Files_Primary story of
                  None \<Rightarrow> []
                | Some f \<Rightarrow>
                    (let resolution = FormGet r ''resolution''
                     in [ServeManifest streamType f resolution])))"

definition StreamHLS :: "Env \<Rightarrow> Request \<Rightarrow> wact list" where
  "StreamHLS env r = streamManifest env StreamTypeHLS r"

definition StreamDASH :: "Env \<Rightarrow> Request \<Rightarrow> wact list" where
  "StreamDASH env r = streamManifest env StreamTypeDASHVideo r"

definition streamSegment :: "Env \<Rightarrow> StreamType \<Rightarrow> Request \<Rightarrow> wact list" where
  "streamSegment env streamType r =
     (case ctxStory r of
        None \<Rightarrow> [Panic]
      | Some story \<Rightarrow>
          if \<not> StreamManager env
          then [HttpError (Lit ''Live transcoding disabled'') StatusServiceUnavailable]
          else (case Files_Primary story of
                  None \<Rightarrow> []
                | Some f \<Rightarrow>
                    (let storyHash = GetHash env story;
                         segment = URLParam r ''segment'';
                         resolution = FormGet r ''resolution'';
                         options = \<lparr>so_StreamType = streamType, so_VideoFile = f,
                                    so_Resolution = resolution, so_Hash = storyHash,
                                    so_Segment = segment\<rparr>
                     in [ServeSegment options])))"

definition StreamHLSSegment :: "Env \<Rightarrow> Request \<Rightarrow> wact list" where
  "StreamHLSSegment env r = streamSegment env StreamTypeHLS r"

definition StreamDASHVideoSegment :: "Env \<Rightarrow> Request \<Rightarrow> wact list" where
  "StreamDASHVideoSegment env r = streamSegment env StreamTypeDASHVideo r"

definition StreamDASHAudioSegment :: "Env \<Rightarrow> Request \<Rightarrow> wact list" where
  "StreamDASHAudioSegment env r = streamSegment env StreamTypeDASHAudio r"

section \<open>Marker routes\<close>

text \<open>
  The three marker routes share their first half: read the marker id (a parameter that is
  not a number counts as 0), look the marker up in a read transaction, and answer a
  cancelled request with nothing, a failed lookup with 500 and a missing marker with 404.
  \<open>serve\<close> is what the route does with the marker it found.
\<close>

definition findMarker :: "Env \<Rightarrow> Request \<Rightarrow> StoryMarker option ran" where
  "findMarker env r =
     (let storyMarkerID = fst (Atoi (URLParam r ''storyMarkerId''))
      in withReadTxn env None
           (case storyMarkerFinder_Find env storyMarkerID of (m, e) \<Rightarrow> Returned m e))"

definition withMarker :: "Env \<Rightarrow> Request \<Rightarrow> (StoryMarker \<Rightarrow> wact list) \<Rightarrow> wact list" where
  "withMarker env r serve =
     (case findMarker env r of
        Panicked \<Rightarrow> [Panic]
      | Returned m (Some e) \<Rightarrow>
          if isCanceled e then []
          else [HttpError (ErrorText e) StatusInternalServerError]
      | Returned None None \<Rightarrow> [HttpError (Lit (StatusText 404)) 404]
      | Returned (Some storyMarker) None \<Rightarrow> serve storyMarker)"


text \<open>If the image does not exist, send the placeholder.\<close>

definition serveOrPlaceholder :: "Env \<Rightarrow> string \<Rightarrow> wact list" where
  "serveOrPlaceholder env filepath =
     (if \<not> FileExists env filepath
      then [SetHeader ''Content-Type'' ''image/png'',
            ServeStaticContent (PendingGenerateResource env)]
      else [ServeStaticFile filepath])"

definition StoryMarkerPreview :: "Env \<Rightarrow> Request \<Rightarrow> wact list" where
  "StoryMarkerPreview env r =
     (case ctxStory r of
        None \<Rightarrow> [Panic]
      | Some story \<Rightarrow>
          (let storyHash = GetHash env story
           in withMarker env r (\<lambda>storyMarker.
                serveOrPlaceholder env
                  (MarkerWebpPreviewPath env storyHash (intOfFloat (marker_Seconds storyMarker))))))"

definition StoryMarkerScreenshot :: "Env \<Rightarrow> Request \<Rightarrow> wact list" where
  "StoryMarkerScreenshot env r =
     (case ctxStory r of
        None \<Rightarrow> [Panic]
      | Some story \<Rightarrow>
          (let storyHash = GetHash env story
           in withMarker env r (\<lambda>storyMarker.
                serveOrPlaceholder env
                  (MarkerScreenshotPath env storyHash (intOfFloat (marker_Seconds storyMarker))))))"

section \<open>Sidecar routes\<close>

text \<open>
  \<open>VttThumbs\<close> and \<open>VttSprite\<close> are mounted twice: under a story id, where the hash
  comes from the story in the context, and as \<open>{storyHash}_thumbs.vtt\<close> and
  \<open>{storyHash}_sprite.jpg\<close>, where it is the URL parameter.
\<close>

definition sidecarHash :: "Env \<Rightarrow> Request \<Rightarrow> string" where
  "sidecarHash env r =
     (case ctxStory r of
        Some story \<Rightarrow> GetHash env story
      | None \<Rightarrow> URLParam r ''storyHash'')"

definition VttThumbs :: "Env \<Rightarrow> Request \<Rightarrow> wact list" where
  "VttThumbs env r =
     (let filepath = GetSpriteVttFilePath env (sidecarHash env r)
      in [SetHeader ''Content-Type'' ''text/vtt'', ServeStaticFile filepath])"

definition VttSprite :: "Env \<Rightarrow> Request \<Rightarrow> wact list" where
  "VttSprite env r =
     (let filepath = GetSpriteImageFilePath env (sidecarHash env r)
      in [ServeStaticFile filepath])"

text \<open>
  \<open>getChapterVttTitle\<close>: the marker's title, or, when it is empty, the name of the primary
  tag and then the name of every tag of the marker, each after a comma and a space. The
  primary tag is used without a nil check.
\<close>

definition chapterTitleBody :: "Env \<Rightarrow> StoryMarker \<Rightarrow> string ran" where
  "chapterTitleBody env marker =
     (case tagFinder_Find env (marker_PrimaryTagID marker) of
        (t, Some e) \<Rightarrow> Returned [] (Some e)
      | (None, None) \<Rightarrow> Panicked
      | (Some primaryTag, None) \<Rightarrow>
          (case tagFinder_FindByStoryMarkerID env (marker_ID marker) of
             (tags, Some e) \<Rightarrow> Returned (tag_Name primaryTag) (Some e)
           | (tags, None) \<Rightarrow>
               Returned (foldl (\<lambda>title t. title @ '', '' @ tag_Name t) (tag_Name primaryTag) tags)
                 None))"

definition getChapterVttTitle :: "Env \<Rightarrow> StoryMarker \<Rightarrow> string ran" where
  "getChapterVttTitle env marker =
     (if marker_Title marker \<noteq> [] then Returned (marker_Title marker) None
      else (case withReadTxn env [] (chapterTitleBody env marker) of
              Panicked \<Rightarrow> Panicked
            | Returned title (Some e) \<Rightarrow> Returned [] (Some e)
            | Returned title None \<Rightarrow> Returned title None))"

text \<open>
  The loop of \<open>VttChapter\<close> over the markers: \<open>i\<close> is the loop index, \<open>vttLines\<close> the
  lines gathered so far. It ends with the lines, or with the response of the early return.
\<close>

fun chapterLines :: "Env \<Rightarrow> nat \<Rightarrow> string list \<Rightarrow> StoryMarker list \<Rightarrow> wact list + string list" where
  "chapterLines env i vttLines [] = Inr vttLines"
| "chapterLines env i vttLines (marker # rest) =
     (let vttLines1 = vttLines @ [Itoa (int i + 1)];
          time = GetVTTTime env (marker_Seconds marker);
          vttLines2 = vttLines1 @ [time @ '' --> '' @ time]
      in case getChapterVttTitle env marker of
           Panicked \<Rightarrow> Inl [Panic]
         | Returned vttTitle (Some e) \<Rightarrow>
             if isCanceled e then Inl []
             else Inl [HttpError (ErrorText e) StatusInternalServerError]
         | Returned vttTitle None \<Rightarrow>
             chapterLines env (Suc i) (vttLines2 @ [vttTitle] @ [[]]) rest)"

definition VttChapter :: "Env \<Rightarrow> Request \<Rightarrow> wact list" where
  "VttChapter env r =
     (case ctxStory r of
        None \<Rightarrow> [Panic]
      | Some story \<Rightarrow>
          (case withReadTxn env []
                  (case storyMarkerFinder_FindByStoryID env (story_ID story) of
                     (ms, e) \<Rightarrow> Returned ms e) of
             Panicked \<Rightarrow> [Panic]
           | Returned storyMarkers (Some e) \<Rightarrow>
               if isCanceled e then []
               else [HttpError (ErrorText e) StatusInternalServerError]
           | Returned storyMarkers None \<Rightarrow>
               (case chapterLines env 0 [''WEBVTT'', []] storyMarkers of
                  Inl early \<Rightarrow> early
                | Inr vttLines \<Rightarrow>
                    [SetHeader ''Content-Type'' ''text/vtt'',
                     ServeStaticContent (Join vttLines [CHR 0x0A])])))"

section \<open>Caption route\<close>

text \<open>
  The loop of \<open>Caption\<close>: captions of another language or type are skipped; the first
  one that matches is read and written as WebVTT, and the loop ends there whether that
  worked or not.
\<close>

fun captionLoop :: "Env \<Rightarrow> Story \<Rightarrow> string \<Rightarrow> string \<Rightarrow> VideoCaption list \<Rightarrow> wact list" where
  "captionLoop env s lang ext [] = []"
| "captionLoop env s lang ext (caption # rest) =
     (if lang \<noteq> LanguageCode caption \<or> ext \<noteq> CaptionType caption
      then captionLoop env s lang ext rest
      else (case ReadSubs env (CaptionPath env caption (story_Path s)) of
              Inl e \<Rightarrow> [HttpError (ErrorText e) StatusInternalServerError]
            | Inr sub \<Rightarrow>
                (case WriteToWebVTT env sub of
                   Inl e \<Rightarrow> [HttpError (ErrorText e) StatusInternalServerError]
                 | Inr buf \<Rightarrow>
                     [SetHeader ''Content-Type'' ''text/vtt'', ServeStaticContent buf])))"

definition captionsOfPrimary :: "Env \<Rightarrow> Story \<Rightarrow> VideoCaption list ran" where
  "captionsOfPrimary env s =
     (case Files_Primary s of
        None \<Rightarrow> Returned [] None
      | Some primaryFile \<Rightarrow>
          (case GetCaptions env (file_ID primaryFile) of (cs, e) \<Rightarrow> Returned cs e))"

definition Caption :: "Env \<Rightarrow> Request \<Rightarrow> string \<Rightarrow> string \<Rightarrow> wact list" where
  "Caption env r lang ext =
     (case ctxStory r of
        None \<Rightarrow> [Panic]
      | Some s \<Rightarrow>
          (case withReadTxn env [] (captionsOfPrimary env s) of
             Panicked \<Rightarrow> [Panic]
           | Returned captions (Some e) \<Rightarrow>
               if isCanceled e then []
               else [HttpError (ErrorText e) StatusInternalServerError]
           | Returned captions None \<Rightarrow> captionLoop env s lang ext captions))"

definition CaptionLang :: "Env \<Rightarrow> Request \<Rightarrow> wact list" where
  "CaptionLang env r = Caption env r (FormGet r ''lang'') (FormGet r ''type'')"

section \<open>Story mutations\<close>

text \<open>
  An optional field of a partial update (\<open>models.OptionalString\<close> and its relatives):
  whether it is set, whether it is set to null, and its value.
\<close>

record 'a Optional =
  opt_Set :: bool
  opt_Null :: bool
  opt_Value :: 'a

record StoryUpdateInput =
  in_ID :: string
  in_Title :: "string option"
  in_Code :: "string option"
  in_Details :: "string option"
  in_Director :: "string option"
  in_Rating100 :: "int option"
  in_OCounter :: "int option"
  in_PlayCount :: "int option"
  in_PlayDuration :: "float64 option"
  in_Organized :: "bool option"
  in_StashIds :: "string list"
  in_Date :: "string option"
  in_StudioID :: "string option"
  in_Urls :: "string list"
  in_URL :: "string option"
  in_PrimaryFileID :: "string option"
  in_PerformerIds :: "string list"
  in_TagIds :: "string list"
  in_GalleryIds :: "string list"
  in_Movies :: "string list"
  in_CoverImage :: "string option"

record StoryPartial =
  sp_Title :: "string Optional"
  sp_Code :: "string Optional"
  sp_Details :: "string Optional"
  sp_Director :: "string Optional"
  sp_Rating :: "int Optional"
  sp_PlayDuration :: "float64 Optional"
  sp_Organized :: "bool Optional"
  sp_StashIDs :: "string list option"
  sp_Date :: "string Optional"
  sp_StudioID :: "int Optional"
  sp_URLs :: "string list option"
  sp_PrimaryFileID :: "int option"
  sp_PerformerIDs :: "int list option"
  sp_TagIDs :: "int list option"
  sp_GalleryIDs :: "int list option"
  sp_MovieIDs :: "int list option"

definition unset :: "'a \<Rightarrow> 'a Optional" where
  "unset zero = \<lparr>opt_Set = False, opt_Null = False, opt_Value = zero\<rparr>"

text \<open>\<open>models.NewStoryPartial()\<close>: nothing is set.\<close>

definition NewStoryPartial :: StoryPartial where
  "NewStoryPartial = \<lparr>sp_Title = unset [], sp_Code = unset [], sp_Details = unset [],
     sp_Director = unset [], sp_Rating = unset 0, sp_PlayDuration = unset (Finite 0),
     sp_Organized = unset False, sp_StashIDs = None, sp_Date = unset [], sp_StudioID = unset 0,
     sp_URLs = None, sp_PrimaryFileID = None, sp_PerformerIDs = None, sp_TagIDs = None,
     sp_GalleryIDs = None, sp_MovieIDs = None\<rparr>"

text \<open>
  The methods of \<open>changesetTranslator\<close> that \<open>storyPartialFromInput\<close> calls. They are
  defined in another file of the package and are parameters here.
\<close>

record Translator =
  optionalString :: "string option \<Rightarrow> string \<Rightarrow> string Optional"
  optionalInt :: "int option \<Rightarrow> string \<Rightarrow> int Optional"
  optionalFloat64 :: "float64 option \<Rightarrow> string \<Rightarrow> float64 Optional"
  optionalBool :: "bool option \<Rightarrow> string \<Rightarrow> bool Optional"
  updateStashIDs :: "string list \<Rightarrow> string \<Rightarrow> string list option"
  optionalDate :: "string option \<Rightarrow> string \<Rightarrow> err + string Optional"
  optionalIntFromString :: "string option \<Rightarrow> string \<Rightarrow> err + int Optional"
  optionalURLs :: "string list \<Rightarrow> string option \<Rightarrow> string list option"
  fileIDPtrFromString :: "string option \<Rightarrow> err + int option"
  updateIds :: "string list \<Rightarrow> string \<Rightarrow> err + int list option"
  updateMovieIDs :: "string list \<Rightarrow> string \<Rightarrow> err + int list option"

text \<open>\<open>fmt.Errorf(m + ": %w", e)\<close> around a failed step, the value of a step that worked.\<close>

definition wrapErr :: "string \<Rightarrow> err + 'a \<Rightarrow> err + 'a" where
  "wrapErr m x = (case x of Inl e \<Rightarrow> Inl (Wrapped m e) | Inr v \<Rightarrow> Inr v)"

definition storyPartialFromInput :: "Translator \<Rightarrow> StoryUpdateInput \<Rightarrow> err + StoryPartial" where
  "storyPartialFromInput tr input =
     (case wrapErr ''converting date'' (optionalDate tr (in_Date input) ''date'') of
        Inl e \<Rightarrow> Inl e
      | Inr date \<Rightarrow>
     (case wrapErr ''converting studio id''
             (optionalIntFromString tr (in_StudioID input) ''studio_id'') of
        Inl e \<Rightarrow> Inl e
      | Inr studioID \<Rightarrow>
     (case wrapErr ''converting primary file id''
             (fileIDPtrFromString tr (in_PrimaryFileID input)) of
        Inl e \<Rightarrow> Inl e
      | Inr primaryFileID \<Rightarrow>
     (case wrapErr ''converting performer ids''
             (updateIds tr (in_PerformerIds input) ''performer_ids'') of
        Inl e \<Rightarrow> Inl e
      | Inr performerIDs \<Rightarrow>
     (case wrapErr ''converting tag ids'' (updateIds tr (in_TagIds input) ''tag_ids'') of
        Inl e \<Rightarrow> Inl e
      | Inr tagIDs \<Rightarrow>
     (case wrapErr ''converting gallery ids''
             (updateIds tr (in_GalleryIds input) ''gallery_ids'') of
        Inl e \<Rightarrow> Inl e
      | Inr galleryIDs \<Rightarrow>
     (case wrapErr ''converting movies'' (updateMovieIDs tr (in_Movies input) ''movies'') of
        Inl e \<Rightarrow> Inl e
      | Inr movieIDs \<Rightarrow>
          Inr \<lparr>sp_Title = optionalString tr (in_Title input) ''title'',
               sp_Code = optionalString tr (in_Code input) ''code'',
               sp_Details = optionalString tr (in_Details input) ''details'',
               sp_Director = optionalString tr (in_Director input) ''director'',
               sp_Rating = optionalInt tr (in_Rating100 input) ''rating100'',
               sp_PlayDuration = optionalFloat64 tr (in_PlayDuration input) ''play_duration'',
               sp_Organized = optionalBool tr (in_Organized input) ''organized'',
               sp_StashIDs = updateStashIDs tr (in_StashIds input) ''stash_ids'',
               sp_Date = date,
               sp_StudioID = studioID,
               sp_URLs = optionalURLs tr (in_Urls input) (in_URL input),
               sp_PrimaryFileID = primaryFileID,
               sp_PerformerIDs = performerIDs,
               sp_TagIDs = tagIDs,
               sp_GalleryIDs = galleryIDs,
               sp_MovieIDs = movieIDs\<rparr>)))))))"

text \<open>
  What a mutation does that matters for the order of its steps, as a trace: the call of
  \<open>manager.KillRunningStreams\<close> for a story, the calls that change stored data, the end of
  a transaction, the file deleter's commit or rollback, and the post hooks.
\<close>

datatype hookType = StoryUpdatePost | StoryDestroyPost

datatype event =
    EvKill int
  | EvDestroy int
  | EvMerge "int list" int
  | EvUpdatePartial int
  | EvUpdateCover int
  | EvCommit
  | EvRollback
  | EvDeleterCommit
  | EvDeleterRollback
  | EvPostHook int hookType

fun isKill :: "event \<Rightarrow> bool" where
  "isKill (EvKill i) = True"
| "isKill e = False"

text \<open>
  The state a mutation runs in: the stored data, of a type the repository chooses, and the
  trace so far.
\<close>

record 'db MState =
  mdb :: 'db
  events :: "event list"

definition emit :: "event list \<Rightarrow> 'db MState \<Rightarrow> 'db MState" where
  "emit evs st = st\<lparr>events := events st @ evs\<rparr>"

text \<open>
  The repository, the story service and the helpers the mutations call; none of them is
  defined in the resolver's file. \<open>Story_Find\<close> returns a story and an error as Go does
  (both absent: no such story). \<open>Story_LoadFiles\<close> returns the story with its files loaded.
\<close>

record 'db MEnv =
  txBegin :: "err option"
  txCommit :: "err option"
  Story_Find :: "int \<Rightarrow> 'db \<Rightarrow> Story option \<times> err option"
  Story_LoadFiles :: "Story \<Rightarrow> 'db \<Rightarrow> err + Story"
  Story_UpdatePartial :: "int \<Rightarrow> StoryPartial \<Rightarrow> 'db \<Rightarrow> (err + Story) \<times> 'db"
  Story_UpdateCover :: "int \<Rightarrow> string \<Rightarrow> 'db \<Rightarrow> err option \<times> 'db"
  Service_Destroy :: "Story \<Rightarrow> bool \<Rightarrow> bool \<Rightarrow> 'db \<Rightarrow> err option \<times> 'db"
  Service_Merge :: "int list \<Rightarrow> int \<Rightarrow> StoryPartial \<Rightarrow> bool \<Rightarrow> bool \<Rightarrow> 'db \<Rightarrow> err option \<times> 'db"
  ProcessImageInput :: "string \<Rightarrow> err + string"
  StringSliceToIntSlice :: "string list \<Rightarrow> err + int list"

text \<open>
  Modelled from the spec: the transaction wrapper \<open>withTxn\<close> is defined outside the
  resolver's file. The spec speaks of a mutation's transaction boundary and of steps that
  come before the mutation commits: the wrapper begins a transaction, runs the function, and
  commits when the function returns no error; on an error of the function or of the commit
  the stored data is as before the transaction. Whether beginning and committing work is a
  parameter of the environment.
\<close>

definition rollback :: "'db MState \<Rightarrow> 'db MState \<Rightarrow> 'db MState" where
  "rollback st0 st = \<lparr>mdb = mdb st0, events = events st @ [EvRollback]\<rparr>"

definition withTxn ::
  "'db MEnv \<Rightarrow> ('db MState \<Rightarrow> (err + 'v) \<times> 'db MState) \<Rightarrow> 'db MState \<Rightarrow> (err + 'v) \<times> 'db MState" where
  "withTxn env fn st =
     (case txBegin env of
        Some e \<Rightarrow> (Inl e, st)
      | None \<Rightarrow>
          (case fn st of
             (Inl e, st') \<Rightarrow> (Inl e, rollback st st')
           | (Inr v, st') \<Rightarrow>
               (case txCommit env of
                  Some e \<Rightarrow> (Inl e, rollback st st')
                | None \<Rightarrow> (Inr v, emit [EvCommit] st'))))"

text \<open>\<open>utils.IsTrue\<close>.\<close>

definition IsTrue :: "bool option \<Rightarrow> bool" where
  "IsTrue b = (case b of None \<Rightarrow> False | Some v \<Rightarrow> v)"

definition notFound :: "int \<Rightarrow> err" where
  "notFound i = Failure (''story with id '' @ Itoa i @ '' not found'')"

text \<open>\<open>getStory\<close>: used to fetch the story again after the hooks have run.\<close>

definition getStory :: "'db MEnv \<Rightarrow> int \<Rightarrow> 'db MState \<Rightarrow> (err + Story option) \<times> 'db MState" where
  "getStory env i st =
     withTxn env (\<lambda>st. (case Story_Find env i (mdb st) of
                           (s, Some e) \<Rightarrow> Inl e
                         | (s, None) \<Rightarrow> Inr s, st)) st"

text \<open>
  The two checks of \<open>storyUpdate\<close> that load the story's files. Each returns the original
  story as it is after the check, or the error that ends the update.
\<close>

definition ensureTitle :: "'db MEnv \<Rightarrow> StoryPartial \<Rightarrow> Story \<Rightarrow> 'db \<Rightarrow> err + Story" where
  "ensureTitle env updatedStory originalStory d =
     (if opt_Set (sp_Title updatedStory) \<and> opt_Value (sp_Title updatedStory) = []
      then (case Story_LoadFiles env originalStory d of
              Inl e \<Rightarrow> Inl e
            | Inr loaded \<Rightarrow>
                if length (Files_List loaded) = 0
                then Inl (Failure ''title must be set if story has no files'')
                else Inr loaded)
      else Inr originalStory)"

definition ensurePrimaryFile :: "'db MEnv \<Rightarrow> StoryPartial \<Rightarrow> Story \<Rightarrow> 'db \<Rightarrow> err + Story" where
  "ensurePrimaryFile env updatedStory originalStory d =
     (case sp_PrimaryFileID updatedStory of
        None \<Rightarrow> Inr originalStory
      | Some newPrimaryFileID \<Rightarrow>
          (case Story_LoadFiles env originalStory d of
             Inl e \<Rightarrow> Inl e
           | Inr loaded \<Rightarrow>
               (case foldl (\<lambda>f ff. if file_ID ff = newPrimaryFileID then Some ff else f)
                       None (Files_List loaded) of
                  None \<Rightarrow> Inl (Failure (''file with id '' @ Itoa newPrimaryFileID @
                                         '' not associated with story''))
                | Some f \<Rightarrow> Inr loaded)))"

definition coverImage :: "'db MEnv \<Rightarrow> string option \<Rightarrow> err + string" where
  "coverImage env img =
     (case img of
        None \<Rightarrow> Inr []
      | Some d \<Rightarrow> wrapErr ''processing cover image'' (ProcessImageInput env d))"

definition storyUpdateCoverImage ::
  "'db MEnv \<Rightarrow> Story \<Rightarrow> string \<Rightarrow> 'db MState \<Rightarrow> err option \<times> 'db MState" where
  "storyUpdateCoverImage env s coverImageData st =
     (if length coverImageData > 0
      then (case Story_UpdateCover env (story_ID s) coverImageData (mdb st) of
              (e, d) \<Rightarrow> (e, emit [EvUpdateCover (story_ID s)] (st\<lparr>mdb := d\<rparr>)))
      else (None, st))"

definition storyUpdate ::
  "'db MEnv \<Rightarrow> Translator \<Rightarrow> StoryUpdateInput \<Rightarrow> 'db MState \<Rightarrow> (err + Story) \<times> 'db MState" where
  "storyUpdate env translator input st =
     (case wrapErr ''converting id'' (checked (Atoi (in_ID input))) of
        Inl e \<Rightarrow> (Inl e, st)
      | Inr storyID \<Rightarrow>
     (case Story_Find env storyID (mdb st) of
        (s, Some e) \<Rightarrow> (Inl e, st)
      | (None, None) \<Rightarrow> (Inl (notFound storyID), st)
      | (Some originalStory, None) \<Rightarrow>
     (case storyPartialFromInput translator input of
        Inl e \<Rightarrow> (Inl e, st)
      | Inr updatedStory \<Rightarrow>
     (case ensureTitle env updatedStory originalStory (mdb st) of
        Inl e \<Rightarrow> (Inl e, st)
      | Inr originalStory1 \<Rightarrow>
     (case ensurePrimaryFile env updatedStory originalStory1 (mdb st) of
        Inl e \<Rightarrow> (Inl e, st)
      | Inr originalStory2 \<Rightarrow>
     (case coverImage env (in_CoverImage input) of
        Inl e \<Rightarrow> (Inl e, st)
      | Inr coverImageData \<Rightarrow>
     (case Story_UpdatePartial env storyID updatedStory (mdb st) of
        (Inl e, d) \<Rightarrow> (Inl e, emit [EvUpdatePartial storyID] (st\<lparr>mdb := d\<rparr>))
      | (Inr story, d) \<Rightarrow>
          (case storyUpdateCoverImage env story coverImageData
                  (emit [EvUpdatePartial storyID] (st\<lparr>mdb := d\<rparr>)) of
             (Some e, st') \<Rightarrow> (Inl e, st')
           | (None, st') \<Rightarrow> (Inr story, st')))))))))"

definition StoryUpdate ::
  "'db MEnv \<Rightarrow> Translator \<Rightarrow> StoryUpdateInput \<Rightarrow> 'db MState \<Rightarrow> (err + Story option) \<times> 'db MState" where
  "StoryUpdate env translator input st =
     (case withTxn env (storyUpdate env translator input) st of
        (Inl e, st') \<Rightarrow> (Inl e, st')
      | (Inr ret, st') \<Rightarrow>
          getStory env (story_ID ret) (emit [EvPostHook (story_ID ret) StoryUpdatePost] st'))"

record StoryDestroyInput =
  sd_ID :: string
  sd_DeleteFile :: "bool option"
  sd_DeleteGenerated :: "bool option"

record StoriesDestroyInput =
  ssd_Ids :: "string list"
  ssd_DeleteFile :: "bool option"
  ssd_DeleteGenerated :: "bool option"

text \<open>
  The function \<open>StoryDestroy\<close> runs in its transaction: find the story, kill any running
  encoders, destroy the story.
\<close>

definition destroyInTxn ::
  "'db MEnv \<Rightarrow> int \<Rightarrow> bool \<Rightarrow> bool \<Rightarrow> 'db MState \<Rightarrow> (err + Story) \<times> 'db MState" where
  "destroyInTxn env storyID deleteGenerated deleteFile st =
     (case Story_Find env storyID (mdb st) of
        (s, Some e) \<Rightarrow> (Inl e, st)
      | (None, None) \<Rightarrow> (Inl (notFound storyID), st)
      | (Some s, None) \<Rightarrow>
          (let st1 = emit [EvKill (story_ID s)] st
           in case Service_Destroy env s deleteGenerated deleteFile (mdb st1) of
                (Some e, d) \<Rightarrow> (Inl e, emit [EvDestroy (story_ID s)] (st1\<lparr>mdb := d\<rparr>))
              | (None, d) \<Rightarrow> (Inr s, emit [EvDestroy (story_ID s)] (st1\<lparr>mdb := d\<rparr>))))"

definition StoryDestroy ::
  "'db MEnv \<Rightarrow> StoryDestroyInput \<Rightarrow> 'db MState \<Rightarrow> (err + bool) \<times> 'db MState" where
  "StoryDestroy env input st =
     (case wrapErr ''converting id'' (checked (Atoi (sd_ID input))) of
        Inl e \<Rightarrow> (Inl e, st)
      | Inr storyID \<Rightarrow>
          (let deleteGenerated = IsTrue (sd_DeleteGenerated input);
               deleteFile = IsTrue (sd_DeleteFile input)
           in case withTxn env (destroyInTxn env storyID deleteGenerated deleteFile) st of
                (Inl e, st') \<Rightarrow> (Inl e, emit [EvDeleterRollback] st')
              | (Inr s, st') \<Rightarrow>
                  (Inr True, emit [EvDeleterCommit, EvPostHook (story_ID s) StoryDestroyPost] st')))"

text \<open>
  The loop of \<open>StoriesDestroy\<close> inside its transaction; \<open>stories\<close> are the stories found
  so far.
\<close>

fun destroyEach ::
  "'db MEnv \<Rightarrow> bool \<Rightarrow> bool \<Rightarrow> int list \<Rightarrow> Story list \<Rightarrow> 'db MState \<Rightarrow> (err + Story list) \<times> 'db MState" where
  "destroyEach env deleteGenerated deleteFile [] stories st = (Inr stories, st)"
| "destroyEach env deleteGenerated deleteFile (i # ids) stories st =
     (case Story_Find env i (mdb st) of
        (s, Some e) \<Rightarrow> (Inl e, st)
      | (None, None) \<Rightarrow> (Inl (notFound i), st)
      | (Some story, None) \<Rightarrow>
          (let stories1 = stories @ [story];
               st1 = emit [EvKill (story_ID story)] st
           in case Service_Destroy env story deleteGenerated deleteFile (mdb st1) of
                (Some e, d) \<Rightarrow> (Inl e, emit [EvDestroy (story_ID story)] (st1\<lparr>mdb := d\<rparr>))
              | (None, d) \<Rightarrow>
                  destroyEach env deleteGenerated deleteFile ids stories1
                    (emit [EvDestroy (story_ID story)] (st1\<lparr>mdb := d\<rparr>))))"

definition StoriesDestroy ::
  "'db MEnv \<Rightarrow> StoriesDestroyInput \<Rightarrow> 'db MState \<Rightarrow> (err + bool) \<times> 'db MState" where
  "StoriesDestroy env input st =
     (case wrapErr ''converting ids'' (StringSliceToIntSlice env (ssd_Ids input)) of
        Inl e \<Rightarrow> (Inl e, st)
      | Inr storyIDs \<Rightarrow>
          (let deleteGenerated = IsTrue (ssd_DeleteGenerated input);
               deleteFile = IsTrue (ssd_DeleteFile input)
           in case withTxn env (destroyEach env deleteGenerated deleteFile storyIDs []) st of
                (Inl e, st') \<Rightarrow> (Inl e, emit [EvDeleterRollback] st')
              | (Inr stories, st') \<Rightarrow>
                  (Inr True,
                   emit (EvDeleterCommit # map (\<lambda>s. EvPostHook (story_ID s) StoryDestroyPost) stories)
                     st')))"

record StoryMergeInput =
  sm_Source :: "string list"
  sm_Destination :: string
  sm_Values :: "StoryUpdateInput option"
  sm_PlayHistory :: "bool option"
  sm_OHistory :: "bool option"

text \<open>The values of a merge and its cover image, from the optional \<open>Values\<close> of the input.\<close>

definition mergeValues ::
  "'db MEnv \<Rightarrow> Translator \<Rightarrow> StoryUpdateInput option \<Rightarrow> err + (StoryPartial \<times> string)" where
  "mergeValues env translator vals =
     (case vals of
        None \<Rightarrow> Inr (NewStoryPartial, [])
      | Some v \<Rightarrow>
          (case storyPartialFromInput translator v of
             Inl e \<Rightarrow> Inl e
           | Inr p \<Rightarrow>
               (case coverImage env (in_CoverImage v) of
                  Inl e \<Rightarrow> Inl e
                | Inr coverImageData \<Rightarrow> Inr (p, coverImageData))))"

definition mergeInTxn ::
  "'db MEnv \<Rightarrow> int list \<Rightarrow> int \<Rightarrow> StoryPartial \<Rightarrow> bool \<Rightarrow> bool \<Rightarrow> string \<Rightarrow> 'db MState
     \<Rightarrow> (err + Story) \<times> 'db MState" where
  "mergeInTxn env srcIDs destID vals playHistory oHistory coverImageData st =
     (case Service_Merge env srcIDs destID vals playHistory oHistory (mdb st) of
        (Some e, d) \<Rightarrow> (Inl e, emit [EvMerge srcIDs destID] (st\<lparr>mdb := d\<rparr>))
      | (None, d) \<Rightarrow>
          (let st1 = emit [EvMerge srcIDs destID] (st\<lparr>mdb := d\<rparr>)
           in case Story_Find env destID (mdb st1) of
                (s, Some e) \<Rightarrow> (Inl e, st1)
              | (None, None) \<Rightarrow> (Inl (notFound destID), st1)
              | (Some ret, None) \<Rightarrow>
                  (case storyUpdateCoverImage env ret coverImageData st1 of
                     (Some e, st2) \<Rightarrow> (Inl e, st2)
                   | (None, st2) \<Rightarrow> (Inr ret, st2))))"

definition StoryMerge ::
  "'db MEnv \<Rightarrow> Translator \<Rightarrow> StoryMergeInput \<Rightarrow> 'db MState \<Rightarrow> (err + Story) \<times> 'db MState" where
  "StoryMerge env translator input st =
     (case wrapErr ''converting source ids'' (StringSliceToIntSlice env (sm_Source input)) of
        Inl e \<Rightarrow> (Inl e, st)
      | Inr srcIDs \<Rightarrow>
     (case wrapErr ''converting destination id'' (checked (Atoi (sm_Destination input))) of
        Inl e \<Rightarrow> (Inl e, st)
      | Inr destID \<Rightarrow>
     (case mergeValues env translator (sm_Values input) of
        Inl e \<Rightarrow> (Inl e, st)
      | Inr (vals, coverImageData) \<Rightarrow>
          withTxn env
            (mergeInTxn env srcIDs destID vals (IsTrue (sm_PlayHistory input))
               (IsTrue (sm_OHistory input)) coverImageData) st)))"

text \<open>
  A kill of the story's streams comes before the commit: in the trace there is a commit, and
  before the first one the story's streams were killed.
\<close>

fun killedBeforeCommit :: "int \<Rightarrow> event list \<Rightarrow> bool" where
  "killedBeforeCommit i [] = False"
| "killedBeforeCommit i (e # es) =
     (if e = EvCommit then False
      else if e = EvKill i then EvCommit \<in> set es
      else killedBeforeCommit i es)"

section \<open>The claims' words for ids\<close>


section \<open>The claims' words for the chapter and caption routes\<close>




text \<open>A stored caption matches when its language code and its type are the requested ones.\<close>

definition captionMatches :: "string \<Rightarrow> string \<Rightarrow> VideoCaption \<Rightarrow> bool" where
  "captionMatches lang ext c = (LanguageCode c = lang \<and> CaptionType c = ext)"

section \<open>Sample data\<close>

text \<open>
  A small library for the concrete instances below: story 1 has two files and file 10 as
  its primary file, story 2 has no file; marker 7 has a title, marker 8 has none and takes
  its text from tag 3 and its other tags.
\<close>

definition sampleFile :: VideoFile where
  "sampleFile = \<lparr>file_ID = 10, file_Path = ''/media/a.mp4''\<rparr>"

definition sampleFile2 :: VideoFile where
  "sampleFile2 = \<lparr>file_ID = 11, file_Path = ''/media/a.mkv''\<rparr>"

definition sampleStory :: Story where
  "sampleStory = \<lparr>story_ID = 1, story_Path = ''/media/a.mp4'', story_Checksum = ''c1'',
     story_OSHash = ''h1'', story_PrimaryFileID = Some 10, Files_Primary = Some sampleFile,
     Files_List = [sampleFile, sampleFile2]\<rparr>"

definition sampleStoryNoFile :: Story where
  "sampleStoryNoFile = \<lparr>story_ID = 2, story_Path = [], story_Checksum = [],
     story_OSHash = [], story_PrimaryFileID = None, Files_Primary = None, Files_List = []\<rparr>"

definition sampleMarker :: StoryMarker where
  "sampleMarker = \<lparr>marker_ID = 7, marker_Title = ''Opening'', marker_Seconds = Finite 0,
     marker_PrimaryTagID = 3, marker_StoryID = 1\<rparr>"

definition sampleMarker2 :: StoryMarker where
  "sampleMarker2 = \<lparr>marker_ID = 8, marker_Title = [], marker_Seconds = Finite 90,
     marker_PrimaryTagID = 3, marker_StoryID = 1\<rparr>"

definition sampleCaptions :: "VideoCaption list" where
  "sampleCaptions =
     [\<lparr>LanguageCode = ''de'', CaptionType = ''srt'', Filename = ''a.de.srt''\<rparr>,
      \<lparr>LanguageCode = ''en'', CaptionType = ''srt'', Filename = ''a.en.srt''\<rparr>,
      \<lparr>LanguageCode = ''en'', CaptionType = ''srt'', Filename = ''b.en.srt''\<rparr>]"

definition sampleEnv :: Env where
  "sampleEnv = \<lparr>
     StreamManager = True,
     GetVideoFileContainer = (\<lambda>f. (if file_ID f = 11 then ''matroska'' else ''mp4'', None)),
     ParseFloat = (\<lambda>s. if s = ''12'' then Parsed (Finite 12) else SyntaxError),
     GetHash = story_OSHash,
     txnBegin = None,
     txnCommit = None,
     storyFinder_Find = (\<lambda>i. if i = 1 then (Some sampleStory, None)
                             else if i = 2 then (Some sampleStoryNoFile, None) else (None, None)),
     LoadPrimaryFile = Inr,
     storyMarkerFinder_Find = (\<lambda>i. if i = 7 then (Some sampleMarker, None)
                                   else if i = 8 then (Some sampleMarker2, None) else (None, None)),
     storyMarkerFinder_FindByStoryID = (\<lambda>i. if i = 1 then ([sampleMarker, sampleMarker2], None)
                                            else ([], None)),
     tagFinder_Find = (\<lambda>i. if i = 3 then (Some \<lparr>tag_ID = 3, tag_Name = ''Intro''\<rparr>, None)
                           else (None, None)),
     tagFinder_FindByStoryMarkerID = (\<lambda>i. if i = 8 then ([\<lparr>tag_ID = 4, tag_Name = ''Calm''\<rparr>,
                                                           \<lparr>tag_ID = 5, tag_Name = ''Night''\<rparr>], None)
                                          else ([], None)),
     GetCaptions = (\<lambda>i. if i = 10 then (sampleCaptions, None) else ([], None)),
     CaptionPath = (\<lambda>c p. Filename c),
     ReadSubs = (\<lambda>p. if p = ''a.en.srt'' then Inr ''Hello'' else Inl (Failure ''cannot read'')),
     WriteToWebVTT = (\<lambda>sub. Inr (''WEBVTT '' @ sub)),
     GetVTTTime = (\<lambda>x. if x = Finite 0 then ''00:00:00.000'' else ''00:01:30.000''),
     GetSpriteVttFilePath = (\<lambda>h. h @ ''_thumbs.vtt''),
     GetSpriteImageFilePath = (\<lambda>h. h @ ''_sprite.jpg''),
     MarkerVideoPreviewPath = (\<lambda>h n. h @ ''_'' @ Itoa n @ ''.mp4''),
     MarkerWebpPreviewPath = (\<lambda>h n. h @ ''_'' @ Itoa n @ ''.webp''),
     MarkerScreenshotPath = (\<lambda>h n. h @ ''_'' @ Itoa n @ ''.jpg''),
     FileExists = (\<lambda>p. p = ''h1_0.webp''),
     PendingGenerateResource = ''PNG''\<rparr>"

definition sampleRequest :: "Story \<Rightarrow> Request" where
  "sampleRequest story = \<lparr>URLParams = Map.empty, Form = Map.empty, ctxStory = Some story\<rparr>"



definition captionRequest :: "string \<Rightarrow> string \<Rightarrow> Request" where
  "captionRequest lang ext = \<lparr>URLParams = Map.empty,
     Form = [''lang'' \<mapsto> [lang], ''type'' \<mapsto> [ext]], ctxStory = Some sampleStory\<rparr>"

definition markerRequest :: "string \<Rightarrow> Request" where
  "markerRequest markerId = \<lparr>URLParams = [''storyId'' \<mapsto> ''1'', ''storyMarkerId'' \<mapsto> markerId],
     Form = Map.empty, ctxStory = Some sampleStory\<rparr>"

text \<open>
  A repository over a list of stories, a story service and a translator for the concrete
  instances of the mutations.
\<close>

definition findStory :: "int \<Rightarrow> Story list \<Rightarrow> Story option" where
  "findStory i d = List.find (\<lambda>s. story_ID s = i) d"

fun sampleIntSlice :: "string list \<Rightarrow> err + int list" where
  "sampleIntSlice [] = Inr []"
| "sampleIntSlice (s # ss) =
     (case checked (Atoi s) of
        Inl e \<Rightarrow> Inl e
      | Inr i \<Rightarrow> (case sampleIntSlice ss of Inl e \<Rightarrow> Inl e | Inr is \<Rightarrow> Inr (i # is)))"

definition sampleMEnv :: "Story list MEnv" where
  "sampleMEnv = \<lparr>
     txBegin = None,
     txCommit = None,
     Story_Find = (\<lambda>i d. (findStory i d, None)),
     Story_LoadFiles = (\<lambda>s d. Inr s),
     Story_UpdatePartial = (\<lambda>i p d.
        case findStory i d of
          None \<Rightarrow> (Inl (Failure ''no rows''), d)
        | Some s \<Rightarrow>
            (let s' = (case sp_PrimaryFileID p of
                         None \<Rightarrow> s
                       | Some f \<Rightarrow> s\<lparr>story_PrimaryFileID := Some f\<rparr>)
             in (Inr s', map (\<lambda>x. if story_ID x = i then s' else x) d))),
     Story_UpdateCover = (\<lambda>i c d. (None, d)),
     Service_Destroy = (\<lambda>s dg df d. (None, filter (\<lambda>x. story_ID x \<noteq> story_ID s) d)),
     Service_Merge = (\<lambda>src dst p ph oh d. (None, filter (\<lambda>x. story_ID x \<notin> set src) d)),
     ProcessImageInput = Inr,
     StringSliceToIntSlice = sampleIntSlice\<rparr>"

definition given :: "'a \<Rightarrow> 'a option \<Rightarrow> 'a Optional" where
  "given zero v =
     (case v of
        None \<Rightarrow> unset zero
      | Some x \<Rightarrow> \<lparr>opt_Set = True, opt_Null = False, opt_Value = x\<rparr>)"

definition sampleTranslator :: Translator where
  "sampleTranslator = \<lparr>
     optionalString = (\<lambda>v f. given [] v),
     optionalInt = (\<lambda>v f. given 0 v),
     optionalFloat64 = (\<lambda>v f. given (Finite 0) v),
     optionalBool = (\<lambda>v f. given False v),
     updateStashIDs = (\<lambda>v f. None),
     optionalDate = (\<lambda>v f. Inr (given [] v)),
     optionalIntFromString = (\<lambda>v f. Inr (unset 0)),
     optionalURLs = (\<lambda>v u. None),
     fileIDPtrFromString = (\<lambda>v. case v of
                                None \<Rightarrow> Inr None
                              | Some s \<Rightarrow> (case checked (Atoi s) of Inl e \<Rightarrow> Inl e | Inr i \<Rightarrow> Inr (Some i))),
     updateIds = (\<lambda>v f. Inr None),
     updateMovieIDs = (\<lambda>v f. Inr None)\<rparr>"

definition emptyInput :: "string \<Rightarrow> StoryUpdateInput" where
  "emptyInput i = \<lparr>in_ID = i, in_Title = None, in_Code = None, in_Details = None,
     in_Director = None, in_Rating100 = None, in_OCounter = None, in_PlayCount = None,
     in_PlayDuration = None, in_Organized = None, in_StashIds = [], in_Date = None,
     in_StudioID = None, in_Urls = [], in_URL = None, in_PrimaryFileID = None,
     in_PerformerIds = [], in_TagIds = [], in_GalleryIds = [], in_Movies = [],
     in_CoverImage = None\<rparr>"

definition primaryFileInput :: "string \<Rightarrow> string \<Rightarrow> StoryUpdateInput" where
  "primaryFileInput i f = (emptyInput i)\<lparr>in_PrimaryFileID := Some f\<rparr>"

definition sampleState :: "Story list MState" where
  "sampleState = \<lparr>mdb = [sampleStory, sampleStoryNoFile], events = []\<rparr>"

definition destroyInput :: "string \<Rightarrow> StoryDestroyInput" where
  "destroyInput i = \<lparr>sd_ID = i, sd_DeleteFile = None, sd_DeleteGenerated = Some True\<rparr>"

definition destroyAllInput :: "string list \<Rightarrow> StoriesDestroyInput" where
  "destroyAllInput ids = \<lparr>ssd_Ids = ids, ssd_DeleteFile = None, ssd_DeleteGenerated = None\<rparr>"

section \<open>Properties\<close>

subsection \<open>Library facts\<close>

lemma checked_simps [simp]:
  "checked (v, None) = Inr v"
  "checked (v, Some e) = Inl e"
  by (simp_all add: checked_def)

lemma checked_Inr [simp]: "checked x = Inr v \<longleftrightarrow> x = (v, None)"
  by (cases x) (auto simp: checked_def split: option.splits)


subsection \<open>Streaming with live transcoding disabled\<close>




subsection \<open>MKV streaming\<close>

text \<open>
  C3. An MKV stream request on a story whose primary file has a container other than
  Matroska is answered with status 400 and the text \<open>not an mkv file\<close>, and no call
  reaches the stream manager. Conversely, when the MKV route does call the stream manager,
  the story has a primary file whose container is Matroska, and the route is then
  \<open>streamTranscode\<close> with the MKV stream type.
\<close>

theorem mkv_requires_matroska_source:
  "(ctxStory r = Some story \<and> Files_Primary story = Some pf \<and>
      fst (GetVideoFileContainer env pf) \<noteq> Matroska \<longrightarrow>
        StreamMKV env r = [WriteHeader StatusBadRequest, Write ''not an mkv file'']
        \<and> statusOf (StreamMKV env r) = Some 400
        \<and> managerCalls (StreamMKV env r) = [])
   \<and> (managerCalls (StreamMKV env r) \<noteq> [] \<longrightarrow>
        (\<exists>story pf. ctxStory r = Some story \<and> Files_Primary story = Some pf \<and>
           fst (GetVideoFileContainer env pf) = Matroska \<and>
           StreamMKV env r = streamTranscode env StreamTypeMKV r))"
  by (auto simp: StreamMKV_def StatusBadRequest_def managerCalls_def Let_def split: option.splits)

theorem mkv_requires_matroska_source_witness:
  "StreamMKV sampleEnv (sampleRequest sampleStory) = [WriteHeader 400, Write ''not an mkv file'']
   \<and> managerCalls (StreamMKV sampleEnv (sampleRequest (sampleStory\<lparr>Files_Primary := Some sampleFile2\<rparr>))) \<noteq> []"
  using mkv_requires_matroska_source [of "sampleRequest sampleStory" sampleStory sampleFile sampleEnv]
  by (simp add: sampleRequest_def sampleStory_def sampleEnv_def sampleFile_def sampleFile2_def Matroska_def
       StatusBadRequest_def StreamMKV_def streamTranscode_def managerCalls_def)

subsection \<open>Stories without a primary file\<close>




subsection \<open>Malformed ids, missing stories and missing markers\<close>



subsection \<open>Start time and resolution of a transcode request\<close>



subsection \<open>Sidecar routes\<close>

text \<open>
  C4, as stated, fails. The thumbnail and sprite routes pass the artifact's path to the
  static file server without looking whether the file exists and never send the
  placeholder; the chapter route reads no file at all: it builds its text from the story's
  markers.
\<close>

theorem sidecar_placeholder_counterexample:
  "\<not> FileExists sampleEnv (GetSpriteVttFilePath sampleEnv (sidecarHash sampleEnv (sampleRequest sampleStory)))
   \<and> VttThumbs sampleEnv (sampleRequest sampleStory) =
       [SetHeader ''Content-Type'' ''text/vtt'', ServeStaticFile ''h1_thumbs.vtt'']
   \<and> \<not> FileExists sampleEnv (GetSpriteImageFilePath sampleEnv (sidecarHash sampleEnv (sampleRequest sampleStory)))
   \<and> VttSprite sampleEnv (sampleRequest sampleStory) = [ServeStaticFile ''h1_sprite.jpg'']
   \<and> VttChapter sampleEnv (sampleRequest sampleStoryNoFile) =
       [SetHeader ''Content-Type'' ''text/vtt'', ServeStaticContent ''WEBVTT\<newline>'']"
  by (simp add: VttThumbs_def VttSprite_def VttChapter_def sidecarHash_def sampleRequest_def
      sampleEnv_def sampleStory_def sampleStoryNoFile_def withReadTxn_def)

lemma chapterLines_early:
  "chapterLines env i acc ms = Inl acts \<Longrightarrow> ServeStaticFile p \<notin> set acts"
  by (induction ms arbitrary: i acc)
     (auto simp: Let_def split: ran.splits option.splits if_splits)

text \<open>
  C4, amended. \<open>vtt/thumbs\<close> and \<open>vtt/sprite\<close> hand the path of the generated artifact
  to the static file server whether or not the file exists, with no placeholder of their
  own; \<open>vtt/chapter\<close> never serves a file from disk. The placeholder image belongs to the
  marker preview and marker screenshot routes: for a marker that was found they serve the
  file when it exists and the placeholder, as \<open>image/png\<close>, when it does not.
\<close>

theorem sidecar_routes_serve_paths:
  "VttThumbs env r =
     [SetHeader ''Content-Type'' ''text/vtt'',
      ServeStaticFile (GetSpriteVttFilePath env (sidecarHash env r))]
   \<and> VttSprite env r = [ServeStaticFile (GetSpriteImageFilePath env (sidecarHash env r))]
   \<and> VttThumbs (env\<lparr>FileExists := fe\<rparr>) r = VttThumbs env r
   \<and> VttSprite (env\<lparr>FileExists := fe\<rparr>) r = VttSprite env r
   \<and> ServeStaticFile p \<notin> set (VttChapter env r)
   \<and> (ctxStory r = Some story \<and> findMarker env r = Returned (Some m) None \<longrightarrow>
        StoryMarkerPreview env r =
          (if FileExists env (MarkerWebpPreviewPath env (GetHash env story) (intOfFloat (marker_Seconds m)))
           then [ServeStaticFile
                   (MarkerWebpPreviewPath env (GetHash env story) (intOfFloat (marker_Seconds m)))]
           else [SetHeader ''Content-Type'' ''image/png'',
                 ServeStaticContent (PendingGenerateResource env)])
        \<and> StoryMarkerScreenshot env r =
          (if FileExists env (MarkerScreenshotPath env (GetHash env story) (intOfFloat (marker_Seconds m)))
           then [ServeStaticFile
                   (MarkerScreenshotPath env (GetHash env story) (intOfFloat (marker_Seconds m)))]
           else [SetHeader ''Content-Type'' ''image/png'',
                 ServeStaticContent (PendingGenerateResource env)]))"
proof -
  have nofile: "ServeStaticFile p \<notin> set (VttChapter env r)"
    by (auto simp: VttChapter_def split: option.splits ran.splits sum.splits prod.splits
        dest: chapterLines_early)
  have marker: "withMarker env r serve = serve m" if "findMarker env r = Returned (Some m) None" for serve
    using that by (simp add: withMarker_def)
  show ?thesis
    using nofile marker
    by (simp add: VttThumbs_def VttSprite_def sidecarHash_def StoryMarkerPreview_def
        StoryMarkerScreenshot_def serveOrPlaceholder_def Let_def split: option.splits)
qed

theorem sidecar_routes_serve_paths_witness:
  "ctxStory (markerRequest ''7'') = Some sampleStory
   \<and> findMarker sampleEnv (markerRequest ''7'') = Returned (Some sampleMarker) None
   \<and> StoryMarkerPreview sampleEnv (markerRequest ''7'') = [ServeStaticFile ''h1_0.webp'']
   \<and> StoryMarkerScreenshot sampleEnv (markerRequest ''7'') =
        [SetHeader ''Content-Type'' ''image/png'', ServeStaticContent ''PNG'']"
proof -
  have h1: "ctxStory (markerRequest ''7'') = Some sampleStory"
    by (simp add: markerRequest_def)
  have h2: "findMarker sampleEnv (markerRequest ''7'') = Returned (Some sampleMarker) None"
    by (simp add: findMarker_def markerRequest_def URLParam_def Atoi_def isDigit_def digitsValue_def
        withReadTxn_def sampleEnv_def)
  show ?thesis
    using h1 h2 sidecar_routes_serve_paths [where r = "markerRequest ''7''" and env = sampleEnv and story = sampleStory
        and m = sampleMarker]
    by (simp add: sampleEnv_def sampleStory_def sampleMarker_def intOfFloat_def Itoa_def
        natDigits.simps digitChar_def)
qed

subsection \<open>Captions\<close>

lemma captionLoop_find:
  "captionLoop env s lang ext cs =
     (case List.find (captionMatches lang ext) cs of
        None \<Rightarrow> []
      | Some c \<Rightarrow>
          (case ReadSubs env (CaptionPath env c (story_Path s)) of
             Inl e \<Rightarrow> [HttpError (ErrorText e) StatusInternalServerError]
           | Inr sub \<Rightarrow>
               (case WriteToWebVTT env sub of
                  Inl e \<Rightarrow> [HttpError (ErrorText e) StatusInternalServerError]
                | Inr buf \<Rightarrow> [SetHeader ''Content-Type'' ''text/vtt'', ServeStaticContent buf])))"
  by (induction cs) (auto simp: captionMatches_def)

text \<open>
  C6, as stated, fails: the first stored caption that matches is read from disk and
  converted, and when reading fails the response is 500 with the error's text, not a WebVTT
  body; later captions that match are not tried.
\<close>

theorem caption_read_failure_counterexample:
  "List.find (captionMatches ''de'' ''srt'') sampleCaptions
      = Some \<lparr>LanguageCode = ''de'', CaptionType = ''srt'', Filename = ''a.de.srt''\<rparr>
   \<and> CaptionLang sampleEnv (captionRequest ''de'' ''srt'')
      = [HttpError (ErrorText (Failure ''cannot read'')) 500]
   \<and> statusOf (CaptionLang sampleEnv (captionRequest ''de'' ''srt'')) = Some 500"
  by (simp add: CaptionLang_def Caption_def captionRequest_def FormGet_def withReadTxn_def
      captionsOfPrimary_def sampleEnv_def sampleStory_def sampleFile_def sampleCaptions_def
      captionMatches_def StatusInternalServerError_def)

text \<open>
  C6, amended. When the captions of the story's primary file are fetched without error (a
  story without a primary file has none), a caption request is decided by the first stored
  caption whose language code and type equal the \<open>lang\<close> and \<open>type\<close> parameters: if
  there is none, nothing is written to the response (empty body, no error status); if it
  is read and written as WebVTT without error, the response is that WebVTT text with
  \<open>Content-Type: text/vtt\<close>; if reading or writing it fails, the response is 500.
\<close>

theorem caption_first_match:
  assumes "ctxStory r = Some s" and "txnBegin env = None" and "txnCommit env = None"
    and "case Files_Primary s of
           None \<Rightarrow> captions = []
         | Some pf \<Rightarrow> GetCaptions env (file_ID pf) = (captions, None)"
  shows "(List.find (captionMatches (FormGet r ''lang'') (FormGet r ''type'')) captions = None \<longrightarrow>
            CaptionLang env r = [])
       \<and> (List.find (captionMatches (FormGet r ''lang'') (FormGet r ''type'')) captions = Some c \<and>
          ReadSubs env (CaptionPath env c (story_Path s)) = Inr sub \<and>
          WriteToWebVTT env sub = Inr buf \<longrightarrow>
            CaptionLang env r = [SetHeader ''Content-Type'' ''text/vtt'', ServeStaticContent buf])
       \<and> (List.find (captionMatches (FormGet r ''lang'') (FormGet r ''type'')) captions = Some c \<and>
          ReadSubs env (CaptionPath env c (story_Path s)) = Inl e \<longrightarrow>
            CaptionLang env r = [HttpError (ErrorText e) 500])
       \<and> (List.find (captionMatches (FormGet r ''lang'') (FormGet r ''type'')) captions = Some c \<and>
          ReadSubs env (CaptionPath env c (story_Path s)) = Inr sub \<and>
          WriteToWebVTT env sub = Inl e \<longrightarrow>
            CaptionLang env r = [HttpError (ErrorText e) 500])"
proof -
  have "withReadTxn env [] (captionsOfPrimary env s) = Returned captions None"
    using assms(2-4) by (simp add: withReadTxn_def captionsOfPrimary_def split: option.splits)
  then have "CaptionLang env r = captionLoop env s (FormGet r ''lang'') (FormGet r ''type'') captions"
    using assms(1) by (simp add: CaptionLang_def Caption_def)
  then show ?thesis
    by (simp add: captionLoop_find StatusInternalServerError_def)
qed

theorem caption_first_match_witness:
  "ctxStory (captionRequest ''en'' ''srt'') = Some sampleStory
   \<and> List.find (captionMatches ''en'' ''srt'') sampleCaptions
      = Some \<lparr>LanguageCode = ''en'', CaptionType = ''srt'', Filename = ''a.en.srt''\<rparr>
   \<and> CaptionLang sampleEnv (captionRequest ''en'' ''srt'')
      = [SetHeader ''Content-Type'' ''text/vtt'', ServeStaticContent ''WEBVTT Hello'']
   \<and> List.find (captionMatches ''fr'' ''srt'') sampleCaptions = None
   \<and> CaptionLang sampleEnv (captionRequest ''fr'' ''srt'') = []"
proof -
  have h1: "ctxStory (captionRequest l t) = Some sampleStory" for l t
    by (simp add: captionRequest_def)
  have h2: "txnBegin sampleEnv = None" and h3: "txnCommit sampleEnv = None"
    by (simp_all add: sampleEnv_def)
  have h4: "case Files_Primary sampleStory of
           None \<Rightarrow> sampleCaptions = []
         | Some pf \<Rightarrow> GetCaptions sampleEnv (file_ID pf) = (sampleCaptions, None)"
    by (simp add: sampleStory_def sampleFile_def sampleEnv_def)
  have f: "FormGet (captionRequest l t) ''lang'' = l" "FormGet (captionRequest l t) ''type'' = t" for l t
    by (simp_all add: captionRequest_def FormGet_def)
  have m1: "List.find (captionMatches ''en'' ''srt'') sampleCaptions
      = Some \<lparr>LanguageCode = ''en'', CaptionType = ''srt'', Filename = ''a.en.srt''\<rparr>"
    by (simp add: sampleCaptions_def captionMatches_def)
  have m2: "List.find (captionMatches ''fr'' ''srt'') sampleCaptions = None"
    by (simp add: sampleCaptions_def captionMatches_def)
  have rd: "ReadSubs sampleEnv (CaptionPath sampleEnv
               \<lparr>LanguageCode = ''en'', CaptionType = ''srt'', Filename = ''a.en.srt''\<rparr>
               (story_Path sampleStory)) = Inr ''Hello''"
       "WriteToWebVTT sampleEnv ''Hello'' = Inr ''WEBVTT Hello''"
    by (simp_all add: sampleEnv_def)
  show ?thesis
    using h1 m1 m2 rd f
      caption_first_match [OF h1 h2 h3 h4, of "''en''" "''srt''"
            "\<lparr>LanguageCode = ''en'', CaptionType = ''srt'', Filename = ''a.en.srt''\<rparr>"
            "''Hello''" "''WEBVTT Hello''"]
      caption_first_match [OF h1 h2 h3 h4, of "''fr''" "''srt''"]
    by simp
qed


subsection \<open>Chapter file\<close>










subsection \<open>Transactions and the trace of a mutation\<close>

lemma withTxn_ok:
  "withTxn env fn st = (Inr v, st') \<Longrightarrow> \<exists>st1. fn st = (Inr v, st1) \<and> st' = emit [EvCommit] st1"
  by (auto simp: withTxn_def split: option.splits sum.splits prod.splits)

lemma withTxn_kills:
  assumes "filter isKill (events (snd (fn st))) = filter isKill (events st)"
  shows "filter isKill (events (snd (withTxn env fn st))) = filter isKill (events st)"
  using assms
  by (auto simp: withTxn_def rollback_def emit_def split: option.splits sum.splits prod.splits)

lemma destroyInTxn_ok:
  "destroyInTxn env i dg df st = (Inr s, st') \<Longrightarrow>
     Story_Find env i (mdb st) = (Some s, None) \<and>
     events st' = events st @ [EvKill (story_ID s), EvDestroy (story_ID s)]"
  by (auto simp: destroyInTxn_def emit_def Let_def split: option.splits prod.splits)

lemma destroyEach_ok:
  "destroyEach env dg df ids acc st = (Inr ss, st') \<Longrightarrow>
     \<exists>new. ss = acc @ new \<and> length new = length ids \<and>
       events st' = events st @ concat (map (\<lambda>s. [EvKill (story_ID s), EvDestroy (story_ID s)]) new)"
proof (induction ids arbitrary: acc st)
  case Nil
  then show ?case by simp
next
  case (Cons i ids)
  from Cons.prems obtain story d where
    found: "Story_Find env i (mdb st) = (Some story, None)"
    and svc: "Service_Destroy env story dg df (mdb (emit [EvKill (story_ID story)] st)) = (None, d)"
    and rest: "destroyEach env dg df ids (acc @ [story])
                 (emit [EvDestroy (story_ID story)] ((emit [EvKill (story_ID story)] st)\<lparr>mdb := d\<rparr>))
               = (Inr ss, st')"
    by (auto simp: Let_def split: option.splits prod.splits)
  from Cons.IH [OF rest] obtain new where
    n: "ss = (acc @ [story]) @ new" "length new = length ids"
       "events st' = events (emit [EvDestroy (story_ID story)]
                              ((emit [EvKill (story_ID story)] st)\<lparr>mdb := d\<rparr>))
                     @ concat (map (\<lambda>s. [EvKill (story_ID s), EvDestroy (story_ID s)]) new)"
    by blast
  show ?case
    by (rule exI [of _ "story # new"]) (use n in \<open>simp add: emit_def\<close>)
qed

lemma killedBeforeCommit_append:
  "EvCommit \<notin> set pre \<Longrightarrow> EvKill i \<in> set pre \<Longrightarrow> killedBeforeCommit i (pre @ EvCommit # post)"
  by (induction pre) auto

lemma storyUpdateCoverImage_kills:
  "storyUpdateCoverImage env s c st = (e, st') \<Longrightarrow>
     filter isKill (events st') = filter isKill (events st)"
  by (auto simp: storyUpdateCoverImage_def emit_def split: prod.splits if_splits)

lemma storyUpdate_kills:
  "filter isKill (events (snd (storyUpdate env tr input st))) = filter isKill (events st)"
  unfolding storyUpdate_def
  by (auto simp: emit_def split: sum.splits prod.splits option.splits
      dest!: storyUpdateCoverImage_kills)

lemma getStory_kills:
  "filter isKill (events (snd (getStory env i st))) = filter isKill (events st)"
  unfolding getStory_def by (rule withTxn_kills) simp

lemma StoryUpdate_kills:
  "filter isKill (events (snd (StoryUpdate env tr input st))) = filter isKill (events st)"
proof -
  have w: "filter isKill (events (snd (withTxn env (storyUpdate env tr input) st)))
           = filter isKill (events st)"
    by (rule withTxn_kills) (rule storyUpdate_kills)
  show ?thesis
    using w by (auto simp: StoryUpdate_def getStory_kills emit_def split: prod.splits sum.splits)
qed

lemma mergeInTxn_kills:
  "filter isKill (events (snd (mergeInTxn env src dst v ph oh c st))) = filter isKill (events st)"
  unfolding mergeInTxn_def
  by (auto simp: emit_def Let_def split: prod.splits option.splits
      dest!: storyUpdateCoverImage_kills)

lemma StoryMerge_kills:
  "filter isKill (events (snd (StoryMerge env tr input st))) = filter isKill (events st)"
  unfolding StoryMerge_def
  by (auto split: sum.splits prod.splits intro: withTxn_kills mergeInTxn_kills
      simp: withTxn_kills mergeInTxn_kills)

lemmas sample_eval =
  wrapErr_def checked_def Atoi_def isDigit_def digitsValue_def sampleMEnv_def sampleTranslator_def
  sampleState_def findStory_def given_def unset_def emit_def rollback_def withTxn_def Let_def
  sampleStory_def sampleStoryNoFile_def sampleFile_def sampleFile2_def IsTrue_def

subsection \<open>Killing running streams before a mutation commits\<close>

text \<open>
  C1, as stated, fails: \<open>StoryUpdate\<close> with a new \<open>PrimaryFileID\<close> changes the primary
  file of story 1 and commits without a kill of the story's streams anywhere in its trace.
\<close>

theorem primary_file_update_without_kill_counterexample:
  "story_PrimaryFileID sampleStory = Some 10
   \<and> StoryUpdate sampleMEnv sampleTranslator (primaryFileInput ''1'' ''11'') sampleState
     = (Inr (Some (sampleStory\<lparr>story_PrimaryFileID := Some 11\<rparr>)),
        \<lparr>mdb = [sampleStory\<lparr>story_PrimaryFileID := Some 11\<rparr>, sampleStoryNoFile],
         events = [EvUpdatePartial 1, EvCommit, EvPostHook 1 StoryUpdatePost, EvCommit]\<rparr>)
   \<and> \<not> killedBeforeCommit 1 [EvUpdatePartial 1, EvCommit, EvPostHook 1 StoryUpdatePost, EvCommit]"
  by (simp add: StoryUpdate_def storyUpdate_def primaryFileInput_def emptyInput_def
      storyPartialFromInput_def ensureTitle_def ensurePrimaryFile_def coverImage_def
      storyUpdateCoverImage_def getStory_def sample_eval)

text \<open>
  C1, amended. \<open>StoryDestroy\<close> and \<open>StoriesDestroy\<close>, when they succeed, have killed the
  running streams of every story they destroy: for each story the kill comes right before
  the call of the destroy service for it, and all of them come before the transaction's
  commit. \<open>storyUpdate\<close> (and so \<open>StoryUpdate\<close>, also when it changes the primary
  file) and the resolver \<open>StoryMerge\<close> issue no kill themselves: the kills in the trace
  after them are the kills that were there before.
\<close>

theorem destroy_kills_before_commit:
  "(StoryDestroy env input st = (Inr b, st') \<longrightarrow>
      (\<exists>storyID s. Atoi (sd_ID input) = (storyID, None) \<and>
         Story_Find env storyID (mdb st) = (Some s, None) \<and>
         events st' = events st @ [EvKill (story_ID s), EvDestroy (story_ID s), EvCommit,
                                   EvDeleterCommit, EvPostHook (story_ID s) StoryDestroyPost] \<and>
         killedBeforeCommit (story_ID s) (drop (length (events st)) (events st'))))
   \<and> (StoriesDestroy env inputs st = (Inr b, st2) \<longrightarrow>
      (\<exists>storyIDs (stories :: Story list). StringSliceToIntSlice env (ssd_Ids inputs) = Inr storyIDs \<and>
         length stories = length storyIDs \<and>
         events st2 = events st
            @ concat (map (\<lambda>s. [EvKill (story_ID s), EvDestroy (story_ID s)]) stories)
            @ [EvCommit, EvDeleterCommit]
            @ map (\<lambda>s. EvPostHook (story_ID s) StoryDestroyPost) stories \<and>
         (\<forall>s \<in> set stories.
            killedBeforeCommit (story_ID s) (drop (length (events st)) (events st2)))))
   \<and> filter isKill (events (snd (storyUpdate env tr uin st))) = filter isKill (events st)
   \<and> filter isKill (events (snd (StoryUpdate env tr uin st))) = filter isKill (events st)
   \<and> filter isKill (events (snd (StoryMerge env tr merging st))) = filter isKill (events st)"
proof -
  have one: "\<exists>storyID s. Atoi (sd_ID input) = (storyID, None) \<and>
         Story_Find env storyID (mdb st) = (Some s, None) \<and>
         events st' = events st @ [EvKill (story_ID s), EvDestroy (story_ID s), EvCommit,
                                   EvDeleterCommit, EvPostHook (story_ID s) StoryDestroyPost] \<and>
         killedBeforeCommit (story_ID s) (drop (length (events st)) (events st'))"
    if ok: "StoryDestroy env input st = (Inr b, st')"
  proof -
    from ok obtain storyID s st1 where
      i: "Atoi (sd_ID input) = (storyID, None)"
      and t: "withTxn env (destroyInTxn env storyID (IsTrue (sd_DeleteGenerated input))
                (IsTrue (sd_DeleteFile input))) st = (Inr s, st1)"
      and f: "st' = emit [EvDeleterCommit, EvPostHook (story_ID s) StoryDestroyPost] st1"
      by (auto simp: StoryDestroy_def wrapErr_def Let_def split: sum.splits prod.splits)
    from withTxn_ok [OF t] obtain st0 where
      d: "destroyInTxn env storyID (IsTrue (sd_DeleteGenerated input))
            (IsTrue (sd_DeleteFile input)) st = (Inr s, st0)"
      and c: "st1 = emit [EvCommit] st0"
      by blast
    from destroyInTxn_ok [OF d] have
      fs: "Story_Find env storyID (mdb st) = (Some s, None)"
      and ev: "events st0 = events st @ [EvKill (story_ID s), EvDestroy (story_ID s)]"
      by simp_all
    have tr: "events st' = events st @ [EvKill (story_ID s), EvDestroy (story_ID s), EvCommit,
                                   EvDeleterCommit, EvPostHook (story_ID s) StoryDestroyPost]"
      using f c ev by (simp add: emit_def)
    show ?thesis using i fs tr by auto
  qed
  have many: "\<exists>storyIDs (stories :: Story list). StringSliceToIntSlice env (ssd_Ids inputs) = Inr storyIDs \<and>
         length stories = length storyIDs \<and>
         events st2 = events st
            @ concat (map (\<lambda>s. [EvKill (story_ID s), EvDestroy (story_ID s)]) stories)
            @ [EvCommit, EvDeleterCommit]
            @ map (\<lambda>s. EvPostHook (story_ID s) StoryDestroyPost) stories \<and>
         (\<forall>s \<in> set stories.
            killedBeforeCommit (story_ID s) (drop (length (events st)) (events st2)))"
    if ok: "StoriesDestroy env inputs st = (Inr b, st2)"
  proof -
    from ok obtain storyIDs stories st1 where
      i: "StringSliceToIntSlice env (ssd_Ids inputs) = Inr storyIDs"
      and t: "withTxn env (destroyEach env (IsTrue (ssd_DeleteGenerated inputs))
                (IsTrue (ssd_DeleteFile inputs)) storyIDs []) st = (Inr stories, st1)"
      and f: "st2 = emit (EvDeleterCommit # map (\<lambda>s. EvPostHook (story_ID s) StoryDestroyPost) stories) st1"
      by (auto simp: StoriesDestroy_def wrapErr_def Let_def split: sum.splits prod.splits)
    from withTxn_ok [OF t] obtain st0 where
      d: "destroyEach env (IsTrue (ssd_DeleteGenerated inputs))
            (IsTrue (ssd_DeleteFile inputs)) storyIDs [] st = (Inr stories, st0)"
      and c: "st1 = emit [EvCommit] st0"
      by blast
    from destroyEach_ok [OF d] have
      len: "length stories = length storyIDs"
      and ev: "events st0 = events st
                 @ concat (map (\<lambda>s. [EvKill (story_ID s), EvDestroy (story_ID s)]) stories)"
      by auto
    let ?pre = "concat (map (\<lambda>s. [EvKill (story_ID s), EvDestroy (story_ID s)]) stories)"
    let ?post = "EvDeleterCommit # map (\<lambda>s. EvPostHook (story_ID s) StoryDestroyPost) stories"
    have tr: "events st2 = events st @ ?pre @ EvCommit # ?post"
      using f c ev by (simp add: emit_def)
    have nc: "EvCommit \<notin> set ?pre" by auto
    have k: "killedBeforeCommit (story_ID s) (?pre @ EvCommit # ?post)" if "s \<in> set stories" for s
      using nc that by (intro killedBeforeCommit_append) auto
    have dr: "drop (length (events st)) (events st2) = ?pre @ EvCommit # ?post"
      using tr by simp
    have "StringSliceToIntSlice env (ssd_Ids inputs) = Inr storyIDs \<and>
         length stories = length storyIDs \<and>
         events st2 = events st @ ?pre @ [EvCommit, EvDeleterCommit]
            @ map (\<lambda>s. EvPostHook (story_ID s) StoryDestroyPost) stories \<and>
         (\<forall>s \<in> set stories.
            killedBeforeCommit (story_ID s) (drop (length (events st)) (events st2)))"
      using i len tr k dr by simp
    then show ?thesis by blast
  qed
  show ?thesis
    using one many by (simp add: storyUpdate_kills StoryUpdate_kills StoryMerge_kills)
qed

theorem destroy_kills_before_commit_witness:
  "StoryDestroy sampleMEnv (destroyInput ''1'') sampleState
     = (Inr True, \<lparr>mdb = [sampleStoryNoFile],
          events = [EvKill 1, EvDestroy 1, EvCommit, EvDeleterCommit, EvPostHook 1 StoryDestroyPost]\<rparr>)
   \<and> killedBeforeCommit 1 (events (snd (StoryDestroy sampleMEnv (destroyInput ''1'') sampleState)))
   \<and> StoriesDestroy sampleMEnv (destroyAllInput [''2'', ''1'']) sampleState
     = (Inr True, \<lparr>mdb = [],
          events = [EvKill 2, EvDestroy 2, EvKill 1, EvDestroy 1, EvCommit, EvDeleterCommit,
                    EvPostHook 2 StoryDestroyPost, EvPostHook 1 StoryDestroyPost]\<rparr>)"
proof -
  have e1: "StoryDestroy sampleMEnv (destroyInput ''1'') sampleState
     = (Inr True, \<lparr>mdb = [sampleStoryNoFile],
          events = [EvKill 1, EvDestroy 1, EvCommit, EvDeleterCommit, EvPostHook 1 StoryDestroyPost]\<rparr>)"
    by (simp add: StoryDestroy_def destroyInTxn_def destroyInput_def sample_eval)
  have e2: "StoriesDestroy sampleMEnv (destroyAllInput [''2'', ''1'']) sampleState
     = (Inr True, \<lparr>mdb = [],
          events = [EvKill 2, EvDestroy 2, EvKill 1, EvDestroy 1, EvCommit, EvDeleterCommit,
                    EvPostHook 2 StoryDestroyPost, EvPostHook 1 StoryDestroyPost]\<rparr>)"
    by (simp add: StoriesDestroy_def destroyAllInput_def sample_eval)
  have used: "\<exists>storyID s. Atoi (sd_ID (destroyInput ''1'')) = (storyID, None) \<and>
         Story_Find sampleMEnv storyID (mdb sampleState) = (Some s, None) \<and>
         events \<lparr>mdb = [sampleStoryNoFile],
                  events = [EvKill 1, EvDestroy 1, EvCommit, EvDeleterCommit,
                            EvPostHook 1 StoryDestroyPost]\<rparr>
           = events sampleState @ [EvKill (story_ID s), EvDestroy (story_ID s), EvCommit,
                                   EvDeleterCommit, EvPostHook (story_ID s) StoryDestroyPost] \<and>
         killedBeforeCommit (story_ID s) (drop (length (events sampleState))
           (events \<lparr>mdb = [sampleStoryNoFile],
                  events = [EvKill 1, EvDestroy 1, EvCommit, EvDeleterCommit,
                            EvPostHook 1 StoryDestroyPost]\<rparr>))"
    using destroy_kills_before_commit [where env = sampleMEnv and input = "destroyInput ''1''" and st = sampleState
            and b = True] e1
    by blast
  have used2: "\<exists>storyIDs (stories :: Story list).
         StringSliceToIntSlice sampleMEnv (ssd_Ids (destroyAllInput [''2'', ''1''])) = Inr storyIDs \<and>
         length stories = length storyIDs \<and>
         (\<forall>s \<in> set stories.
            killedBeforeCommit (story_ID s) (drop (length (events sampleState))
              [EvKill 2, EvDestroy 2, EvKill 1, EvDestroy 1, EvCommit, EvDeleterCommit,
               EvPostHook 2 StoryDestroyPost, EvPostHook 1 StoryDestroyPost]))"
    using destroy_kills_before_commit [where env = sampleMEnv
            and inputs = "destroyAllInput [''2'', ''1'']" and st = sampleState and b = True] e2
    by fastforce
  show ?thesis
    using used used2 e1 e2 by simp
qed

subsection \<open>A primary file that is not one of the story's files\<close>

lemma pick_file_None:
  "foldl (\<lambda>f ff. if file_ID ff = i then Some ff else f) a fs = None
     \<longleftrightarrow> a = None \<and> i \<notin> file_ID ` set fs"
  by (induction fs arbitrary: a) auto

lemma pick_file_Some:
  "foldl (\<lambda>f ff. if file_ID ff = i then Some ff else f) None fs = Some x \<Longrightarrow>
     i \<in> file_ID ` set fs"
  using pick_file_None [of i None fs] by auto

lemma storyPartialFromInput_primary:
  "storyPartialFromInput tr input = Inr p \<Longrightarrow>
   fileIDPtrFromString tr (in_PrimaryFileID input) = Inr v \<Longrightarrow> sp_PrimaryFileID p = v"
  by (auto simp: storyPartialFromInput_def wrapErr_def split: sum.splits)

lemma ensureTitle_loaded:
  "ensureTitle env p orig d = Inr s1 \<Longrightarrow> s1 = orig \<or> Story_LoadFiles env orig d = Inr s1"
  by (auto simp: ensureTitle_def split: if_splits sum.splits)

lemma ensurePrimaryFile_rejects:
  assumes "sp_PrimaryFileID p = Some fid"
    and "\<forall>s'. Story_LoadFiles env s1 d = Inr s' \<longrightarrow> fid \<notin> file_ID ` set (Files_List s')"
  shows "\<exists>e. ensurePrimaryFile env p s1 d = Inl e"
  using assms
  by (auto simp: ensurePrimaryFile_def split: sum.splits option.splits dest: pick_file_Some)

text \<open>
  C9. When the input of an update sets \<open>PrimaryFileID\<close> to a file id that is not among
  the files of the story (as \<open>LoadFiles\<close> loads them), \<open>storyUpdate\<close> returns an error
  and leaves the state as it was: the repository's update is never called. \<open>StoryUpdate\<close>
  then returns an error too, the stored data are unchanged, and its trace holds at most the
  rollback of its transaction.
\<close>

theorem update_with_unassociated_primary_file_fails:
  assumes conv: "fileIDPtrFromString tr (in_PrimaryFileID input) = Inr (Some fid)"
    and notAssoc: "\<forall>storyID orig s1 s'.
        Atoi (in_ID input) = (storyID, None) \<and>
        Story_Find env storyID (mdb st) = (Some orig, None) \<and>
        (s1 = orig \<or> Story_LoadFiles env orig (mdb st) = Inr s1) \<and>
        Story_LoadFiles env s1 (mdb st) = Inr s'
          \<longrightarrow> fid \<notin> file_ID ` set (Files_List s')"
  shows "(\<exists>e. storyUpdate env tr input st = (Inl e, st))
       \<and> (\<exists>e. fst (StoryUpdate env tr input st) = Inl e)
       \<and> mdb (snd (StoryUpdate env tr input st)) = mdb st
       \<and> (events (snd (StoryUpdate env tr input st)) = events st
          \<or> events (snd (StoryUpdate env tr input st)) = events st @ [EvRollback])"
proof -
  have core: "\<exists>e. storyUpdate env tr input st = (Inl e, st)"
  proof (cases "checked (Atoi (in_ID input))")
    case (Inl e)
    then show ?thesis by (simp add: storyUpdate_def wrapErr_def)
  next
    case (Inr storyID)
    note id = this
    have ida: "Atoi (in_ID input) = (storyID, None)" using id by simp
    show ?thesis
    proof (cases "Story_Find env storyID (mdb st)")
      case (Pair found ferr)
      show ?thesis
      proof (cases "ferr = None \<and> found \<noteq> None")
        case False
        then show ?thesis
          using id Pair by (auto simp: storyUpdate_def wrapErr_def split: option.splits)
      next
        case True
        then obtain orig where f: "Story_Find env storyID (mdb st) = (Some orig, None)"
          using Pair by auto
        show ?thesis
        proof (cases "storyPartialFromInput tr input")
          case (Inl e)
          then show ?thesis using id f by (simp add: storyUpdate_def wrapErr_def)
        next
          case (Inr p)
          note part = this
          have pf: "sp_PrimaryFileID p = Some fid"
            using storyPartialFromInput_primary [OF part conv] .
          show ?thesis
          proof (cases "ensureTitle env p orig (mdb st)")
            case (Inl e)
            then show ?thesis using id f part by (simp add: storyUpdate_def wrapErr_def)
          next
            case (Inr s1)
            from ensureTitle_loaded [OF Inr]
            have "\<forall>s'. Story_LoadFiles env s1 (mdb st) = Inr s' \<longrightarrow>
                        fid \<notin> file_ID ` set (Files_List s')"
              using notAssoc ida f by blast
            from ensurePrimaryFile_rejects [OF pf this]
            obtain e where "ensurePrimaryFile env p s1 (mdb st) = Inl e" by blast
            then show ?thesis
              using id f part Inr by (simp add: storyUpdate_def wrapErr_def)
          qed
        qed
      qed
    qed
  qed
  then obtain e where e: "storyUpdate env tr input st = (Inl e, st)" by blast
  have outer: "(\<exists>e'. fst (StoryUpdate env tr input st) = Inl e')
               \<and> mdb (snd (StoryUpdate env tr input st)) = mdb st
               \<and> (events (snd (StoryUpdate env tr input st)) = events st
                  \<or> events (snd (StoryUpdate env tr input st)) = events st @ [EvRollback])"
    using e by (auto simp: StoryUpdate_def withTxn_def rollback_def split: option.splits)
  show ?thesis using core outer by simp
qed

theorem update_with_unassociated_primary_file_fails_witness:
  "fileIDPtrFromString sampleTranslator (in_PrimaryFileID (primaryFileInput ''1'' ''12'')) = Inr (Some 12)
   \<and> 12 \<notin> file_ID ` set (Files_List sampleStory)
   \<and> StoryUpdate sampleMEnv sampleTranslator (primaryFileInput ''1'' ''12'') sampleState
      = (Inl (Failure ''file with id 12 not associated with story''),
         \<lparr>mdb = mdb sampleState, events = [EvRollback]\<rparr>)
   \<and> (\<exists>e. storyUpdate sampleMEnv sampleTranslator (primaryFileInput ''1'' ''12'') sampleState
            = (Inl e, sampleState))"
proof -
  have conv: "fileIDPtrFromString sampleTranslator (in_PrimaryFileID (primaryFileInput ''1'' ''12''))
                = Inr (Some 12)"
    by (simp add: primaryFileInput_def emptyInput_def sample_eval)
  have files: "12 \<notin> file_ID ` set (Files_List sampleStory)"
    by (simp add: sampleStory_def sampleFile_def sampleFile2_def)
  have notAssoc: "\<forall>storyID orig s1 s'.
        Atoi (in_ID (primaryFileInput ''1'' ''12'')) = (storyID, None) \<and>
        Story_Find sampleMEnv storyID (mdb sampleState) = (Some orig, None) \<and>
        (s1 = orig \<or> Story_LoadFiles sampleMEnv orig (mdb sampleState) = Inr s1) \<and>
        Story_LoadFiles sampleMEnv s1 (mdb sampleState) = Inr s'
          \<longrightarrow> 12 \<notin> file_ID ` set (Files_List s')"
    by (auto simp: primaryFileInput_def emptyInput_def sample_eval)
  have run: "StoryUpdate sampleMEnv sampleTranslator (primaryFileInput ''1'' ''12'') sampleState
      = (Inl (Failure ''file with id 12 not associated with story''),
         \<lparr>mdb = mdb sampleState, events = [EvRollback]\<rparr>)"
    by (simp add: StoryUpdate_def storyUpdate_def primaryFileInput_def emptyInput_def
      storyPartialFromInput_def ensureTitle_def ensurePrimaryFile_def coverImage_def
      storyUpdateCoverImage_def getStory_def sample_eval Itoa_def natDigits.simps digitChar_def)
  show ?thesis
    using conv files run update_with_unassociated_primary_file_fails [OF conv notAssoc] by simp
qed

end
